theory Spec2Isabelle
  imports Complex_Main
begin

section \<open>Data model of \<^verbatim>\<open>src/app/index.tsx\<close>\<close>

text \<open>
  The component \<^verbatim>\<open>LocationApp\<close> keeps five pieces of React state. A JavaScript number
  that carries a coordinate is a \<^typ>\<open>real\<close> (the code only stores and forwards these
  numbers). \<^verbatim>\<open>retryCount\<close> is a JavaScript number that starts at 0 and is only ever
  reset to 0 or replaced by its successor, so it is a \<^typ>\<open>nat\<close>.
\<close>

text \<open>\<^verbatim>\<open>Region\<close> of react-native-maps, as built at lines 125-130.\<close>

record region =
  latitude :: real
  longitude :: real
  latitudeDelta :: real
  longitudeDelta :: real

text \<open>\<^verbatim>\<open>Location.LocationObject\<close>: the fields the component reads.\<close>

record location_coords =
  latitude :: real
  longitude :: real

record location_object =
  coords :: location_coords
  timestamp :: real

text \<open>\<^verbatim>\<open>interface LocationError\<close>, lines 22-25.\<close>

datatype severity = Error | Warning

record location_error =
  message :: string
  type :: severity

text \<open>The \<^verbatim>\<open>useState\<close> cells of lines 28-32.\<close>

record app_state =
  location :: "location_object option"
  errorMsg :: "location_error option"
  mapRegion :: "region option"
  loading :: bool
  retryCount :: nat

definition initial_state :: app_state where
  "initial_state =
     \<lparr>location = None, errorMsg = None, mapRegion = None, loading = True, retryCount = 0\<rparr>"

definition MAX_RETRIES :: nat where
  "MAX_RETRIES = 3"

section \<open>The platform, as seen by one invocation\<close>

text \<open>
  A thrown JavaScript error, with the \<^verbatim>\<open>message\<close> property that line 140 reads.
\<close>

datatype js_error = JsError (err_message: string)

text \<open>An awaited call either returns a value or throws.\<close>

datatype 'a outcome = Returns 'a | Throws js_error

datatype platform_os = android | ios | web | windows | macos

text \<open>\<^verbatim>\<open>PermissionsAndroid.RESULTS\<close> and expo's \<^verbatim>\<open>PermissionStatus\<close>.\<close>

datatype android_result = GRANTED | DENIED | NEVER_ASK_AGAIN

datatype permission_status = granted | denied | undetermined

text \<open>
  What the device answers during one invocation of \<^verbatim>\<open>getCurrentLocation\<close>: one field
  per platform call the invocation can make.
\<close>

record env =
  platformOS :: platform_os
  hasServicesEnabledAsync :: "bool outcome"
  permissionsAndroidRequest :: "android_result outcome"
  requestForegroundPermissionsAsync :: "permission_status outcome"
  getCurrentPositionAsync :: "location_object outcome"

text \<open>
  A value of \<^verbatim>\<open>response.data.success\<close> with JavaScript's truthiness (line 162). The
  number \<^verbatim>\<open>NaN\<close> is not represented.
\<close>

datatype js_value = JUndefined | JNull | JBool bool | JNumber real | JString string | JObject

fun truthy :: "js_value \<Rightarrow> bool" where
  "truthy JUndefined = False"
| "truthy JNull = False"
| "truthy (JBool b) = b"
| "truthy (JNumber x) = (x \<noteq> 0)"
| "truthy (JString s) = (s \<noteq> [])"
| "truthy JObject = True"

text \<open>
  \<^verbatim>\<open>response.data\<close>: either null or undefined, where reading \<^verbatim>\<open>.success\<close> throws the
  engine's TypeError, or a value whose \<^verbatim>\<open>success\<close> property is read
  (\<open>JUndefined\<close> when the property is absent).
\<close>

datatype response_data = Nullish js_error | WithSuccess js_value

text \<open>The promise of \<^verbatim>\<open>axios.post\<close> rejects or resolves.\<close>

datatype http_outcome = Rejects js_error | Resolves response_data

section \<open>Observable events\<close>

text \<open>
  A closure of one render is identified by the values that render bound. The only closure
  handed to a timer is \<^verbatim>\<open>getCurrentLocation\<close> (line 137), whose one free state variable
  is \<^verbatim>\<open>retryCount\<close>.
\<close>

datatype closure = GetCurrentLocation nat

datatype api =
    HasServicesEnabledAsync
  | PermissionsAndroidRequest
  | RequestForegroundPermissionsAsync
  | GetCurrentPositionAsync

text \<open>
  Everything an invocation does to the outside, in program order: state setters, platform
  calls, console output, alerts, timers and HTTP requests.
  \<open>SetRetryCountPrevPlus1\<close> is the functional update \<^verbatim>\<open>setRetryCount(prev => prev + 1)\<close>.
\<close>

datatype event =
    SetLoading bool
  | SetErrorMsg "location_error option"
  | SetLocation location_object
  | SetMapRegion region
  | SetRetryCount nat
  | SetRetryCountPrevPlus1
  | Call api
  | ConsoleLog string
  | ConsoleWarn string js_error
  | ConsoleError string js_error
  | Alert string string
  | SetTimeout closure nat
  | HttpPost string real real

text \<open>The effect of one event on the React state; queued updates apply in order.\<close>

fun apply_event :: "event \<Rightarrow> app_state \<Rightarrow> app_state" where
  "apply_event (SetLoading b) s = s\<lparr>loading := b\<rparr>"
| "apply_event (SetErrorMsg e) s = s\<lparr>errorMsg := e\<rparr>"
| "apply_event (SetLocation l) s = s\<lparr>location := Some l\<rparr>"
| "apply_event (SetMapRegion r) s = s\<lparr>mapRegion := Some r\<rparr>"
| "apply_event (SetRetryCount n) s = s\<lparr>retryCount := n\<rparr>"
| "apply_event SetRetryCountPrevPlus1 s = s\<lparr>retryCount := retryCount s + 1\<rparr>"
| "apply_event _ s = s"

fun exec :: "event list \<Rightarrow> app_state \<Rightarrow> app_state" where
  "exec [] s = s"
| "exec (e # es) s = exec es (apply_event e s)"

text \<open>Projections of a trace.\<close>

fun alerts :: "event list \<Rightarrow> (string \<times> string) list" where
  "alerts [] = []"
| "alerts (Alert t m # es) = (t, m) # alerts es"
| "alerts (_ # es) = alerts es"

fun timeouts :: "event list \<Rightarrow> (closure \<times> nat) list" where
  "timeouts [] = []"
| "timeouts (SetTimeout c d # es) = (c, d) # timeouts es"
| "timeouts (_ # es) = timeouts es"

fun calls :: "event list \<Rightarrow> api list" where
  "calls [] = []"
| "calls (Call a # es) = a # calls es"
| "calls (_ # es) = calls es"

fun posts :: "event list \<Rightarrow> (string \<times> real \<times> real) list" where
  "posts [] = []"
| "posts (HttpPost u x y # es) = (u, x, y) # posts es"
| "posts (_ # es) = posts es"

section \<open>Location acquisition\<close>

text \<open>\<^verbatim>\<open>requestAndroidPermission\<close>, lines 60-77.\<close>

definition requestAndroidPermission :: "env \<Rightarrow> bool \<times> event list" where
  "requestAndroidPermission e =
     (case permissionsAndroidRequest e of
        Returns result \<Rightarrow> (result = GRANTED, [Call PermissionsAndroidRequest])
      | Throws err \<Rightarrow>
          (False, [Call PermissionsAndroidRequest,
                   ConsoleWarn ''Error requesting Android permission:'' err]))"

text \<open>\<^verbatim>\<open>checkLocationServices\<close>, lines 79-94.\<close>

definition checkLocationServices :: "env \<Rightarrow> bool \<times> event list" where
  "checkLocationServices e =
     (case hasServicesEnabledAsync e of
        Returns enabled \<Rightarrow>
          (if \<not> enabled then
             (False, [Call HasServicesEnabledAsync,
                SetErrorMsg (Some \<lparr>message =
                  ''Location services are disabled. Please enable them in your device settings.'',
                  type = Warning\<rparr>)])
           else (True, [Call HasServicesEnabledAsync]))
      | Throws err \<Rightarrow>
          (False, [Call HasServicesEnabledAsync,
                   ConsoleError ''Error checking location services:'' err]))"

text \<open>
  The permission step of lines 104-110. The Android helper catches its own exception; the
  other branch has no handler of its own, so an exception leaves the \<^verbatim>\<open>try\<close> block.
\<close>

definition hasPermission :: "env \<Rightarrow> bool outcome \<times> event list" where
  "hasPermission e =
     (if platformOS e = android then
        (case requestAndroidPermission e of (b, evs) \<Rightarrow> (Returns b, evs))
      else
        (case requestForegroundPermissionsAsync e of
           Returns status \<Rightarrow> (Returns (status = granted), [Call RequestForegroundPermissionsAsync])
         | Throws err \<Rightarrow> (Throws err, [Call RequestForegroundPermissionsAsync])))"

text \<open>The \<^verbatim>\<open>try\<close> block of \<^verbatim>\<open>getCurrentLocation\<close>, lines 100-132.\<close>

definition getCurrentLocation_try :: "env \<Rightarrow> bool outcome \<times> event list" where
  "getCurrentLocation_try e =
     (case checkLocationServices e of (servicesEnabled, ev1) \<Rightarrow>
        if \<not> servicesEnabled then (Returns False, ev1)
        else
          (case hasPermission e of
             (Throws err, ev2) \<Rightarrow> (Throws err, ev1 @ ev2)
           | (Returns permitted, ev2) \<Rightarrow>
               if \<not> permitted then
                 (Returns False, ev1 @ ev2 @
                    [SetErrorMsg (Some \<lparr>message =
                       ''Location permission denied. Please enable it in app settings.'',
                       type = Error\<rparr>)])
               else
                 (case getCurrentPositionAsync e of
                    Throws err \<Rightarrow> (Throws err, ev1 @ ev2 @ [Call GetCurrentPositionAsync])
                  | Returns loc \<Rightarrow>
                      (Returns True, ev1 @ ev2 @
                         [Call GetCurrentPositionAsync,
                          SetLocation loc,
                          SetMapRegion \<lparr>region.latitude = latitude (coords loc),
                                        region.longitude = longitude (coords loc),
                                        latitudeDelta = 0.01,
                                        longitudeDelta = 0.01\<rparr>,
                          SetRetryCount 0]))))"

text \<open>The \<^verbatim>\<open>catch\<close> block, lines 133-143. It reads the \<^verbatim>\<open>retryCount\<close> of its own scope.\<close>

definition getCurrentLocation_catch :: "nat \<Rightarrow> js_error \<Rightarrow> event list" where
  "getCurrentLocation_catch retryCount_bound err =
     ConsoleError ''Error getting location:'' err #
     (if retryCount_bound < MAX_RETRIES then
        [SetRetryCountPrevPlus1, SetTimeout (GetCurrentLocation retryCount_bound) 2000]
      else
        [SetErrorMsg (Some \<lparr>message = ''Failed to get location: '' @ err_message err,
                            type = Error\<rparr>),
         Alert ''Location Error'' ''Unable to get your location. Please try again.''])"

text \<open>
  \<^verbatim>\<open>getCurrentLocation\<close>, lines 96-147. The first argument is the value of the constant
  \<^verbatim>\<open>retryCount\<close> in the render that created the closure: line 32 binds it once per render,
  and the closure passed to \<^verbatim>\<open>setTimeout\<close> at line 137 is the running closure itself. The
  \<^verbatim>\<open>finally\<close> block runs last on every path.
\<close>

definition getCurrentLocation :: "nat \<Rightarrow> env \<Rightarrow> bool \<times> event list" where
  "getCurrentLocation retryCount_bound e =
     (case getCurrentLocation_try e of
        (Returns b, evs) \<Rightarrow>
          (b, [SetLoading True, SetErrorMsg None] @ evs @ [SetLoading False])
      | (Throws err, evs) \<Rightarrow>
          (False, [SetLoading True, SetErrorMsg None] @ evs @
                  getCurrentLocation_catch retryCount_bound err @ [SetLoading False]))"

section \<open>Location reporting\<close>

text \<open>The \<^verbatim>\<open>try\<close> block of \<^verbatim>\<open>sendLocationToServer\<close>, lines 155-166.\<close>

definition sendLocationToServer_try :: "location_object \<Rightarrow> http_outcome \<Rightarrow> unit outcome \<times> event list" where
  "sendLocationToServer_try loc out =
     (let post = HttpPost ''https://wss.clusterider.tech/send-location''
                   (latitude (coords loc)) (longitude (coords loc))
      in case out of
           Rejects err \<Rightarrow> (Throws err, [post])
         | Resolves (Nullish err) \<Rightarrow> (Throws err, [post])
         | Resolves (WithSuccess success) \<Rightarrow>
             (if truthy success then
                (Returns (), [post, Alert ''Success'' ''Location shared successfully via server.''])
              else
                (Returns (), [post,
                   Alert ''Failed'' ''Failed to send location via server. Please try again.''])))"

text \<open>
  \<^verbatim>\<open>sendLocationToServer\<close>, lines 149-171. The first argument is the value of the constant
  \<^verbatim>\<open>location\<close> in the render that created the closure (line 28). The result says how the
  returned promise settles.
\<close>

definition sendLocationToServer :: "location_object option \<Rightarrow> http_outcome \<Rightarrow> unit outcome \<times> event list" where
  "sendLocationToServer location_bound out =
     (case location_bound of
        None \<Rightarrow>
          (Returns (),
           [Alert ''Error'' ''Location data is not available. Please refresh your location.''])
      | Some loc \<Rightarrow>
          (case sendLocationToServer_try loc out of
             (Returns u, evs) \<Rightarrow> (Returns (), evs)
           | (Throws err, evs) \<Rightarrow>
               (Returns (), evs @
                  [ConsoleError ''Error sending location to server:'' err,
                   Alert ''Error'' ''Failed to send location to server. Please try again.''])))"

text \<open>
  \<^verbatim>\<open>ws.onmessage\<close>, lines 42-46: it calls the \<^verbatim>\<open>sendLocationToServer\<close> of the render in
  which the handler was created.
\<close>

definition ws_onmessage :: "location_object option \<Rightarrow> http_outcome \<Rightarrow> event list" where
  "ws_onmessage location_bound out =
     ConsoleLog ''Message received from server'' # snd (sendLocationToServer location_bound out)"

section \<open>The mounted component\<close>

text \<open>
  The running screen: the current React state, the state values bound by the render in
  which the WebSocket effect ran, and the closures waiting in timers (all timers have the
  same delay, so they fire in the order they were set). An invocation is taken as one
  step; overlapping invocations that interleave at an \<^verbatim>\<open>await\<close> are not modelled.
\<close>

record app =
  current :: app_state
  socket_scope :: app_state
  timers :: "closure list"

definition run_acquisition :: "nat \<Rightarrow> env \<Rightarrow> app \<Rightarrow> app \<times> event list" where
  "run_acquisition retryCount_bound e a =
     (let evs = snd (getCurrentLocation retryCount_bound e)
      in (a\<lparr>current := exec evs (current a),
            timers := timers a @ map fst (timeouts evs)\<rparr>, evs))"

text \<open>
  Mounting, lines 27-58 and 173-175: the first render binds the initial values of the
  \<^verbatim>\<open>useState\<close> cells; both effects have the dependency list \<^verbatim>\<open>[]\<close>, so they run once,
  with the closures of that first render.
\<close>

definition first_render :: app where
  "first_render = \<lparr>current = initial_state, socket_scope = initial_state, timers = []\<rparr>"

definition mount :: "env \<Rightarrow> app \<times> event list" where
  "mount e = run_acquisition (retryCount (current first_render)) e first_render"

text \<open>
  What can happen to the mounted screen: a pending timer fires, the refresh button is
  pressed (line 247), the send button is pressed (lines 252-256, disabled while the
  rendered \<^verbatim>\<open>location\<close> is null), or the socket delivers a message.
\<close>

datatype input =
    TimerFires env
  | RefreshPressed env
  | SendPressed http_outcome
  | SocketMessage http_outcome

fun app_step :: "input \<Rightarrow> app \<Rightarrow> app \<times> event list" where
  "app_step (TimerFires e) a =
     (case timers a of
        [] \<Rightarrow> (a, [])
      | GetCurrentLocation n # cs \<Rightarrow> run_acquisition n e (a\<lparr>timers := cs\<rparr>))"
| "app_step (RefreshPressed e) a = run_acquisition (retryCount (current a)) e a"
| "app_step (SendPressed out) a =
     (if location (current a) = None then (a, [])
      else (a, snd (sendLocationToServer (location (current a)) out)))"
| "app_step (SocketMessage out) a = (a, ws_onmessage (location (socket_scope a)) out)"

fun app_run :: "input list \<Rightarrow> app \<times> event list \<Rightarrow> app \<times> event list" where
  "app_run [] r = r"
| "app_run (i # is) (a, evs) =
     (case app_step i a of (a', evs') \<Rightarrow> app_run is (a', evs @ evs'))"

text \<open>
  One automatic acquisition: an invocation of the closure that bound \<open>n\<close>, then one firing
  of a timer for each further answer of the device.
\<close>

definition acquisition_run :: "nat \<Rightarrow> env list \<Rightarrow> app \<Rightarrow> app \<times> event list" where
  "acquisition_run n es a =
     (case es of
        [] \<Rightarrow> (a, [])
      | e # es' \<Rightarrow> app_run (map TimerFires es') (run_acquisition n e a))"

text \<open>Environments used to state the properties.\<close>

definition services_enabled :: "env \<Rightarrow> bool" where
  "services_enabled e = (hasServicesEnabledAsync e = Returns True)"

definition permission_granted :: "env \<Rightarrow> bool" where
  "permission_granted e =
     (if platformOS e = android then permissionsAndroidRequest e = Returns GRANTED
      else requestForegroundPermissionsAsync e = Returns granted)"

definition fix_fails :: "env \<Rightarrow> js_error \<Rightarrow> bool" where
  "fix_fails e err =
     (services_enabled e \<and> permission_granted e \<and> getCurrentPositionAsync e = Throws err)"

definition fix_succeeds :: "env \<Rightarrow> location_object \<Rightarrow> bool" where
  "fix_succeeds e loc =
     (services_enabled e \<and> permission_granted e \<and> getCurrentPositionAsync e = Returns loc)"

definition fix_throws :: "env \<Rightarrow> bool" where
  "fix_throws e =
     (services_enabled e \<and> permission_granted e \<and>
      (case getCurrentPositionAsync e of Throws err \<Rightarrow> True | Returns loc \<Rightarrow> False))"

text \<open>The permission request answers, and the answer is not the granted one; on Android
  a request that throws counts as well (line 75).\<close>

definition permission_refused :: "env \<Rightarrow> bool" where
  "permission_refused e =
     (if platformOS e = android then permissionsAndroidRequest e \<noteq> Returns GRANTED
      else (case requestForegroundPermissionsAsync e of
              Returns status \<Rightarrow> status \<noteq> granted
            | Throws err \<Rightarrow> False))"

text \<open>The platform call that line 106 or line 108 makes.\<close>

definition permission_call :: "env \<Rightarrow> api" where
  "permission_call e =
     (if platformOS e = android then PermissionsAndroidRequest
      else RequestForegroundPermissionsAsync)"

text \<open>The request resolved and \<^verbatim>\<open>response.data.success\<close> is truthy.\<close>

definition success_indicated :: "http_outcome \<Rightarrow> bool" where
  "success_indicated out =
     (case out of Resolves (WithSuccess success) \<Rightarrow> truthy success | _ \<Rightarrow> False)"

text \<open>Concrete devices and answers, for evaluating the definitions.\<close>

definition example_location :: location_object where
  "example_location = \<lparr>coords = \<lparr>latitude = 12.5, longitude = 77.25\<rparr>, timestamp = 0\<rparr>"

definition device_ok :: "platform_os \<Rightarrow> location_object \<Rightarrow> env" where
  "device_ok os loc =
     \<lparr>platformOS = os,
      hasServicesEnabledAsync = Returns True,
      permissionsAndroidRequest = Returns GRANTED,
      requestForegroundPermissionsAsync = Returns granted,
      getCurrentPositionAsync = Returns loc\<rparr>"

definition device_fix_fails :: "platform_os \<Rightarrow> string \<Rightarrow> env" where
  "device_fix_fails os m =
     (device_ok os example_location)\<lparr>getCurrentPositionAsync := Throws (JsError m)\<rparr>"

definition device_services_off :: env where
  "device_services_off =
     (device_ok android example_location)\<lparr>hasServicesEnabledAsync := Returns False\<rparr>"

definition device_services_check_throws :: env where
  "device_services_check_throws =
     (device_ok ios example_location)
       \<lparr>hasServicesEnabledAsync := Throws (JsError ''native module unavailable'')\<rparr>"

definition device_permission_denied :: env where
  "device_permission_denied =
     (device_ok android example_location)\<lparr>permissionsAndroidRequest := Returns DENIED\<rparr>"

definition device_permission_throws :: env where
  "device_permission_throws =
     (device_ok ios example_location)
       \<lparr>requestForegroundPermissionsAsync := Throws (JsError ''missing usage description'')\<rparr>"

definition device_android_permission_throws :: env where
  "device_android_permission_throws =
     (device_ok android example_location)
       \<lparr>permissionsAndroidRequest := Throws (JsError ''missing usage description'')\<rparr>"

definition stale_state :: app_state where
  "stale_state =
     \<lparr>location = Some example_location,
      errorMsg = Some \<lparr>message = ''Failed to get location: timeout'', type = Error\<rparr>,
      mapRegion = None, loading = False, retryCount = 2\<rparr>"

section \<open>Basic facts\<close>

lemmas acquisition_defs =
  getCurrentLocation_def getCurrentLocation_try_def getCurrentLocation_catch_def
  hasPermission_def requestAndroidPermission_def checkLocationServices_def

lemmas env_defs = services_enabled_def permission_granted_def fix_fails_def fix_succeeds_def

lemmas device_defs =
  device_ok_def device_fix_fails_def device_services_off_def device_services_check_throws_def
  device_permission_denied_def device_permission_throws_def
  device_android_permission_throws_def example_location_def

lemma timeouts_append: "timeouts (xs @ ys) = timeouts xs @ timeouts ys"
  by (induction xs rule: timeouts.induct) simp_all

lemma pair_fst_snd: "x = (fst x, snd x)"
  by simp

text \<open>The trace of an invocation whose position fix throws, and of one whose fix succeeds.\<close>

lemma getCurrentLocation_fix_fails:
  assumes "fix_fails e err"
  shows "getCurrentLocation n e =
     (False, [SetLoading True, SetErrorMsg None, Call HasServicesEnabledAsync,
              Call (permission_call e), Call GetCurrentPositionAsync] @
             getCurrentLocation_catch n err @ [SetLoading False])"
  using assms
  by (auto simp: env_defs permission_call_def getCurrentLocation_def getCurrentLocation_try_def
      hasPermission_def requestAndroidPermission_def checkLocationServices_def split: if_splits)

lemma getCurrentLocation_fix_succeeds:
  assumes "fix_succeeds e loc"
  shows "getCurrentLocation n e =
     (True, [SetLoading True, SetErrorMsg None, Call HasServicesEnabledAsync,
             Call (permission_call e), Call GetCurrentPositionAsync,
             SetLocation loc,
             SetMapRegion \<lparr>region.latitude = latitude (coords loc),
                           region.longitude = longitude (coords loc),
                           latitudeDelta = 0.01, longitudeDelta = 0.01\<rparr>,
             SetRetryCount 0, SetLoading False])"
  using assms
  by (auto simp: env_defs permission_call_def getCurrentLocation_def getCurrentLocation_try_def
      hasPermission_def requestAndroidPermission_def checkLocationServices_def split: if_splits)

lemma fix_throws_fix_fails: "fix_throws e \<Longrightarrow> \<exists>err. fix_fails e err"
  by (auto simp: fix_throws_def fix_fails_def split: outcome.splits)

section \<open>Reporting\<close>

text \<open>
  C4: every invocation of the report operation whose \<^verbatim>\<open>location\<close> is null shows the
  error alert and returns; its trace holds that alert and nothing else, so no HTTP request
  is made.
\<close>

theorem report_without_position_no_request:
  "sendLocationToServer None out =
     (Returns (),
      [Alert ''Error'' ''Location data is not available. Please refresh your location.''])
   \<and> posts (snd (sendLocationToServer None out)) = []"
  by (simp add: sendLocationToServer_def)

text \<open>
  C6: a report attempt with a position makes one POST with the stored coordinates and
  shows exactly one alert: the confirmation when the response's success indicator is true,
  a failure alert for every other outcome (the flag false gives ``Failed'', a rejected
  request gives ``Error''). The returned promise resolves, so nothing reaches a caller, and
  the trace holds no state setter: position, error descriptor, retry counter and loading
  flag stay as they were.
\<close>

theorem report_attempt_outcomes:
  assumes "sendLocationToServer (Some loc) out = (res, evs)"
  shows "res = Returns () \<and>
    posts evs = [(''https://wss.clusterider.tech/send-location'',
                  latitude (coords loc), longitude (coords loc))] \<and>
    (success_indicated out \<longrightarrow>
       alerts evs = [(''Success'', ''Location shared successfully via server.'')]) \<and>
    (\<not> success_indicated out \<longrightarrow>
       alerts evs = [(''Failed'', ''Failed to send location via server. Please try again.'')] \<or>
       alerts evs = [(''Error'', ''Failed to send location to server. Please try again.'')]) \<and>
    (out = Resolves (WithSuccess (JBool True)) \<longrightarrow>
       alerts evs = [(''Success'', ''Location shared successfully via server.'')]) \<and>
    (out = Resolves (WithSuccess (JBool False)) \<longrightarrow>
       alerts evs = [(''Failed'', ''Failed to send location via server. Please try again.'')]) \<and>
    (\<forall>err. out = Rejects err \<longrightarrow>
       alerts evs = [(''Error'', ''Failed to send location to server. Please try again.'')]) \<and>
    exec evs s = s \<and>
    fst (app_step (SendPressed out) a) = a"
  using assms
  by (auto simp: sendLocationToServer_def sendLocationToServer_try_def success_indicated_def
      Let_def split: http_outcome.splits response_data.splits if_splits)

theorem report_attempt_outcomes_witness:
  "alerts (snd (sendLocationToServer (Some example_location)
             (Resolves (WithSuccess (JBool True))))) =
     [(''Success'', ''Location shared successfully via server.'')] \<and>
   alerts (snd (sendLocationToServer (Some example_location)
             (Resolves (WithSuccess (JBool False))))) =
     [(''Failed'', ''Failed to send location via server. Please try again.'')] \<and>
   alerts (snd (sendLocationToServer (Some example_location)
             (Rejects (JsError ''Network Error'')))) =
     [(''Error'', ''Failed to send location to server. Please try again.'')] \<and>
   fst (sendLocationToServer (Some example_location) (Rejects (JsError ''Network Error''))) =
     Returns () \<and>
   posts (snd (sendLocationToServer (Some example_location)
             (Rejects (JsError ''Network Error'')))) =
     [(''https://wss.clusterider.tech/send-location'', 12.5, 77.25)] \<and>
   exec (snd (sendLocationToServer (Some example_location)
             (Rejects (JsError ''Network Error'')))) stale_state = stale_state"
  using
    report_attempt_outcomes [OF pair_fst_snd,
      of example_location "Resolves (WithSuccess (JBool True))" stale_state first_render]
    report_attempt_outcomes [OF pair_fst_snd,
      of example_location "Resolves (WithSuccess (JBool False))" stale_state first_render]
    report_attempt_outcomes [OF pair_fst_snd,
      of example_location "Rejects (JsError ''Network Error'')" stale_state first_render]
  by (simp add: example_location_def)

section \<open>Location services disabled or unknown\<close>

text \<open>
  C7: when \<^verbatim>\<open>hasServicesEnabledAsync\<close> answers false, the one invocation returns false,
  leaves the warning that names the disabled services as the error descriptor, sets no
  timer and does not touch the retry counter, makes no platform call after the services
  check (so no position fix is requested), and ends with \<^verbatim>\<open>loading\<close> false.
\<close>

theorem services_disabled_warning_no_retry:
  assumes "hasServicesEnabledAsync e = Returns False"
    and "getCurrentLocation n e = (res, evs)"
  shows "res = False \<and>
     errorMsg (exec evs s) = Some \<lparr>message =
        ''Location services are disabled. Please enable them in your device settings.'',
        type = Warning\<rparr> \<and>
     loading (exec evs s) = False \<and>
     retryCount (exec evs s) = retryCount s \<and>
     timeouts evs = [] \<and> alerts evs = [] \<and>
     calls evs = [HasServicesEnabledAsync]"
  using assms by (auto simp: acquisition_defs)

theorem services_disabled_warning_no_retry_witness:
  "hasServicesEnabledAsync device_services_off = Returns False \<and>
   fst (getCurrentLocation 0 device_services_off) = False \<and>
   errorMsg (exec (snd (getCurrentLocation 0 device_services_off)) initial_state) =
     Some \<lparr>message =
        ''Location services are disabled. Please enable them in your device settings.'',
        type = Warning\<rparr> \<and>
   loading (exec (snd (getCurrentLocation 0 device_services_off)) initial_state) = False \<and>
   timeouts (snd (getCurrentLocation 0 device_services_off)) = [] \<and>
   calls (snd (getCurrentLocation 0 device_services_off)) = [HasServicesEnabledAsync]"
proof -
  have off: "hasServicesEnabledAsync device_services_off = Returns False"
    by (simp add: device_defs)
  show ?thesis
    using off
      services_disabled_warning_no_retry [OF off pair_fst_snd, of 0 initial_state]
    by simp
qed

text \<open>
  C9: when \<^verbatim>\<open>hasServicesEnabledAsync\<close> throws, the invocation returns false and its whole
  trace is: loading on, error descriptor cleared, the services check, one console line,
  loading off. The state is left with no error descriptor and \<^verbatim>\<open>loading\<close> false, every
  other cell as before; there is no alert and no timer.
\<close>

theorem services_check_throws_silent_failure:
  assumes "hasServicesEnabledAsync e = Throws err"
    and "getCurrentLocation n e = (res, evs)"
  shows "res = False \<and>
     evs = [SetLoading True, SetErrorMsg None, Call HasServicesEnabledAsync,
            ConsoleError ''Error checking location services:'' err, SetLoading False] \<and>
     exec evs s = s\<lparr>loading := False, errorMsg := None\<rparr> \<and>
     timeouts evs = [] \<and> alerts evs = []"
  using assms by (auto simp: acquisition_defs)

theorem services_check_throws_silent_failure_witness:
  "hasServicesEnabledAsync device_services_check_throws =
     Throws (JsError ''native module unavailable'') \<and>
   fst (getCurrentLocation 0 device_services_check_throws) = False \<and>
   exec (snd (getCurrentLocation 0 device_services_check_throws)) initial_state =
     initial_state\<lparr>loading := False, errorMsg := None\<rparr> \<and>
   timeouts (snd (getCurrentLocation 0 device_services_check_throws)) = [] \<and>
   alerts (snd (getCurrentLocation 0 device_services_check_throws)) = []"
proof -
  have thrown: "hasServicesEnabledAsync device_services_check_throws =
      Throws (JsError ''native module unavailable'')"
    by (simp add: device_defs)
  show ?thesis
    using thrown
      services_check_throws_silent_failure [OF thrown pair_fst_snd, of 0 initial_state]
    by simp
qed

section \<open>Permission\<close>

text \<open>
  When the services check passed and the permission request answers with an outcome other
  than the granted one (on Android also when the request throws, lines 73-76), the
  invocation returns false and leaves the error-severity permission-denied descriptor; it
  sets no timer, does not touch the retry counter, and calls nothing after the permission
  request, so no position fix is requested.
\<close>

lemma permission_refused_error_no_retry:
  assumes "services_enabled e" and "permission_refused e"
    and "getCurrentLocation n e = (res, evs)"
  shows "res = False \<and>
     errorMsg (exec evs s) = Some \<lparr>message =
        ''Location permission denied. Please enable it in app settings.'', type = Error\<rparr> \<and>
     loading (exec evs s) = False \<and>
     retryCount (exec evs s) = retryCount s \<and>
     timeouts evs = [] \<and> alerts evs = [] \<and>
     calls evs = [HasServicesEnabledAsync, permission_call e]"
  using assms
  by (auto simp: acquisition_defs env_defs permission_refused_def permission_call_def
      split: outcome.splits if_splits)

lemma permission_refused_error_no_retry_example:
  "services_enabled device_permission_denied \<and>
   permission_refused device_permission_denied \<and>
   fst (getCurrentLocation 0 device_permission_denied) = False \<and>
   errorMsg (exec (snd (getCurrentLocation 0 device_permission_denied)) initial_state) =
     Some \<lparr>message = ''Location permission denied. Please enable it in app settings.'',
           type = Error\<rparr> \<and>
   timeouts (snd (getCurrentLocation 0 device_permission_denied)) = [] \<and>
   calls (snd (getCurrentLocation 0 device_permission_denied)) =
     [HasServicesEnabledAsync, PermissionsAndroidRequest]"
proof -
  have enabled: "services_enabled device_permission_denied"
    by (simp add: services_enabled_def device_defs)
  have refused: "permission_refused device_permission_denied"
    by (simp add: permission_refused_def device_defs)
  have call: "permission_call device_permission_denied = PermissionsAndroidRequest"
    by (simp add: permission_call_def device_defs)
  show ?thesis
    using enabled refused call
      permission_refused_error_no_retry [OF enabled refused pair_fst_snd, of 0 initial_state]
    by simp
qed

text \<open>
  C8 at the answer where the two platform branches part: the permission request throws.
  On Android the helper catches the exception and returns false (lines 73-76), so the
  invocation records the permission-denied error, sets no timer and requests no fix. On
  iOS line 108 has no handler of its own: the same exception reaches the \<^verbatim>\<open>catch\<close> block of
  line 133, and the invocation records no permission-denied error, adds one to the retry
  counter and sets a timer of 2000 ms for a further attempt.
\<close>

theorem foreground_permission_throw_schedules_retry:
  "platformOS device_permission_throws = ios \<and>
   services_enabled device_permission_throws \<and>
   requestForegroundPermissionsAsync device_permission_throws =
     Throws (JsError ''missing usage description'') \<and>
   getCurrentLocation 0 device_permission_throws =
     (False,
      [SetLoading True, SetErrorMsg None, Call HasServicesEnabledAsync,
       Call RequestForegroundPermissionsAsync,
       ConsoleError ''Error getting location:'' (JsError ''missing usage description''),
       SetRetryCountPrevPlus1, SetTimeout (GetCurrentLocation 0) 2000, SetLoading False]) \<and>
   timeouts (snd (getCurrentLocation 0 device_permission_throws)) =
     [(GetCurrentLocation 0, 2000)] \<and>
   errorMsg (exec (snd (getCurrentLocation 0 device_permission_throws)) initial_state) = None \<and>
   retryCount (exec (snd (getCurrentLocation 0 device_permission_throws)) initial_state) = 1 \<and>
   platformOS device_android_permission_throws = android \<and>
   permissionsAndroidRequest device_android_permission_throws =
     Throws (JsError ''missing usage description'') \<and>
   getCurrentLocation 0 device_android_permission_throws =
     (False,
      [SetLoading True, SetErrorMsg None, Call HasServicesEnabledAsync,
       Call PermissionsAndroidRequest,
       ConsoleWarn ''Error requesting Android permission:''
         (JsError ''missing usage description''),
       SetErrorMsg (Some \<lparr>message =
          ''Location permission denied. Please enable it in app settings.'', type = Error\<rparr>),
       SetLoading False]) \<and>
   timeouts (snd (getCurrentLocation 0 device_android_permission_throws)) = [] \<and>
   retryCount (exec (snd (getCurrentLocation 0 device_android_permission_throws))
      initial_state) = 0"
  by (simp add: acquisition_defs device_defs services_enabled_def initial_state_def
      MAX_RETRIES_def)

section \<open>The stored position\<close>

text \<open>
  C3: an invocation that returns false leaves the stored position (and the map region)
  as it was, whatever made it fail. The position is written only in an invocation that
  returns true, and only with the value the position fix returned; an invocation returns
  true exactly when services are enabled, permission is granted and the fix returns.
\<close>

theorem failed_attempt_keeps_position:
  assumes "getCurrentLocation n e = (res, evs)"
  shows "(\<not> res \<longrightarrow>
            location (exec evs s) = location s \<and> mapRegion (exec evs s) = mapRegion s) \<and>
         (\<forall>l. SetLocation l \<in> set evs \<longrightarrow> res \<and> fix_succeeds e l) \<and>
         (res = (\<exists>l. fix_succeeds e l))"
  using assms
  by (auto simp: acquisition_defs env_defs split: outcome.splits if_splits prod.splits)

theorem failed_attempt_keeps_position_witness:
  "fst (getCurrentLocation 0 (device_fix_fails android ''timeout'')) = False \<and>
   location stale_state = Some example_location \<and>
   location (exec (snd (getCurrentLocation 0 (device_fix_fails android ''timeout''))) stale_state)
     = Some example_location \<and>
   fst (getCurrentLocation 0 device_services_off) = False \<and>
   location (exec (snd (getCurrentLocation 0 device_services_off)) stale_state)
     = Some example_location \<and>
   fst (getCurrentLocation 0 device_permission_denied) = False \<and>
   location (exec (snd (getCurrentLocation 0 device_permission_denied)) stale_state)
     = Some example_location"
proof -
  have f1: "\<not> fst (getCurrentLocation 0 (device_fix_fails android ''timeout''))"
    and f2: "\<not> fst (getCurrentLocation 0 device_services_off)"
    and f3: "\<not> fst (getCurrentLocation 0 device_permission_denied)"
    by (simp_all add: acquisition_defs device_defs)
  have s: "location stale_state = Some example_location"
    by (simp add: stale_state_def)
  show ?thesis
    using f1 f2 f3 s
      failed_attempt_keeps_position [OF pair_fst_snd,
        of 0 "device_fix_fails android ''timeout''" stale_state]
      failed_attempt_keeps_position [OF pair_fst_snd, of 0 device_services_off stale_state]
      failed_attempt_keeps_position [OF pair_fst_snd, of 0 device_permission_denied stale_state]
    by simp
qed

section \<open>Retries\<close>

text \<open>
  C1, as stated, fails on the run that starts at mount: after the third consecutive
  failure of the position fix a timer for a further attempt is pending, no error
  descriptor is recorded and no alert has been raised.
\<close>

theorem third_failure_schedules_retry_counterexample:
  "timers (fst (app_run [TimerFires (device_fix_fails android ''t2''),
                         TimerFires (device_fix_fails android ''t3'')]
                  (mount (device_fix_fails android ''t1'')))) = [GetCurrentLocation 0] \<and>
   errorMsg (current (fst (app_run [TimerFires (device_fix_fails android ''t2''),
                         TimerFires (device_fix_fails android ''t3'')]
                  (mount (device_fix_fails android ''t1''))))) = None \<and>
   alerts (snd (app_run [TimerFires (device_fix_fails android ''t2''),
                         TimerFires (device_fix_fails android ''t3'')]
                  (mount (device_fix_fails android ''t1'')))) = [] \<and>
   map snd (timeouts (snd (app_run [TimerFires (device_fix_fails android ''t2''),
                         TimerFires (device_fix_fails android ''t3'')]
                  (mount (device_fix_fails android ''t1''))))) = [2000, 2000, 2000]"
  by (simp add: mount_def first_render_def run_acquisition_def acquisition_defs device_defs
      initial_state_def MAX_RETRIES_def)

text \<open>
  C1, amended: an invocation whose position fix throws returns false. If the retry
  counter it reads has reached \<^verbatim>\<open>MAX_RETRIES\<close> (3), it sets no timer and leaves the counter
  alone, records the error-severity descriptor whose message ends with the cause, and
  raises the alert. If the counter it reads is below 3, it sets one timer of 2000 ms and
  records no error and raises no alert.
\<close>

theorem fix_failure_terminal_at_max_retries:
  assumes "fix_fails e err" and "getCurrentLocation n e = (res, evs)"
  shows "res = False \<and>
    (MAX_RETRIES \<le> n \<longrightarrow>
       timeouts evs = [] \<and> retryCount (exec evs s) = retryCount s \<and>
       errorMsg (exec evs s) =
         Some \<lparr>message = ''Failed to get location: '' @ err_message err, type = Error\<rparr> \<and>
       alerts evs = [(''Location Error'', ''Unable to get your location. Please try again.'')]) \<and>
    (n < MAX_RETRIES \<longrightarrow>
       timeouts evs = [(GetCurrentLocation n, 2000)] \<and> errorMsg (exec evs s) = None \<and>
       alerts evs = [])"
  using assms getCurrentLocation_fix_fails [OF assms(1), of n]
  by (auto simp: getCurrentLocation_catch_def)

theorem fix_failure_terminal_at_max_retries_witness:
  "fix_fails (device_fix_fails ios ''timeout'') (JsError ''timeout'') \<and>
   timeouts (snd (getCurrentLocation 3 (device_fix_fails ios ''timeout''))) = [] \<and>
   errorMsg (exec (snd (getCurrentLocation 3 (device_fix_fails ios ''timeout''))) initial_state) =
     Some \<lparr>message = ''Failed to get location: timeout'', type = Error\<rparr> \<and>
   alerts (snd (getCurrentLocation 3 (device_fix_fails ios ''timeout''))) =
     [(''Location Error'', ''Unable to get your location. Please try again.'')] \<and>
   timeouts (snd (getCurrentLocation 2 (device_fix_fails ios ''timeout''))) =
     [(GetCurrentLocation 2, 2000)] \<and>
   alerts (snd (getCurrentLocation 2 (device_fix_fails ios ''timeout''))) = []"
proof -
  have fails: "fix_fails (device_fix_fails ios ''timeout'') (JsError ''timeout'')"
    by (simp add: env_defs device_defs)
  show ?thesis
    using fails
      fix_failure_terminal_at_max_retries [OF fails pair_fst_snd, of 3 initial_state]
      fix_failure_terminal_at_max_retries [OF fails pair_fst_snd, of 2 initial_state]
    by (simp add: MAX_RETRIES_def)
qed

text \<open>
  C10: an invocation whose fix throws while the counter it reads is below 3 returns
  false; in its trace the timer is set after the counter update and the last event, after
  the timer is set, is the finalizer's \<^verbatim>\<open>setLoading(false)\<close>. So the state it leaves has
  \<^verbatim>\<open>loading\<close> false and no error descriptor while its closure waits in a timer. Every
  invocation, the one started by that timer included, begins by setting \<^verbatim>\<open>loading\<close> true.
\<close>

theorem retry_pending_while_not_loading:
  assumes "fix_fails e err" and "n < MAX_RETRIES"
    and "getCurrentLocation n e = (res, evs)"
  shows "res = False \<and>
     evs = [SetLoading True, SetErrorMsg None] @ map Call (calls evs) @
           [ConsoleError ''Error getting location:'' err, SetRetryCountPrevPlus1,
            SetTimeout (GetCurrentLocation n) 2000, SetLoading False] \<and>
     loading (exec evs s) = False \<and> errorMsg (exec evs s) = None \<and>
     timers (fst (run_acquisition n e a)) = timers a @ [GetCurrentLocation n] \<and>
     loading (current (fst (run_acquisition n e a))) = False \<and>
     (\<forall>e'. \<exists>rest. snd (getCurrentLocation n e') = SetLoading True # rest)"
proof -
  have evs: "evs = [SetLoading True, SetErrorMsg None, Call HasServicesEnabledAsync,
              Call (permission_call e), Call GetCurrentPositionAsync,
              ConsoleError ''Error getting location:'' err, SetRetryCountPrevPlus1,
              SetTimeout (GetCurrentLocation n) 2000, SetLoading False]"
    and res: "res = False"
    using assms getCurrentLocation_fix_fails [OF assms(1), of n]
    by (simp_all add: getCurrentLocation_catch_def)
  have start: "\<exists>rest. snd (getCurrentLocation n e') = SetLoading True # rest" for e'
    by (simp add: getCurrentLocation_def split: prod.splits outcome.splits)
  show ?thesis
    using start by (simp add: evs res run_acquisition_def assms(3))
qed

theorem retry_pending_while_not_loading_witness:
  "fix_fails (device_fix_fails android ''timeout'') (JsError ''timeout'') \<and>
   (0::nat) < MAX_RETRIES \<and>
   fst (getCurrentLocation 0 (device_fix_fails android ''timeout'')) = False \<and>
   loading (exec (snd (getCurrentLocation 0 (device_fix_fails android ''timeout'')))
      initial_state) = False \<and>
   timers (fst (run_acquisition 0 (device_fix_fails android ''timeout'') first_render)) =
     [GetCurrentLocation 0] \<and>
   loading (current (fst (run_acquisition 0 (device_fix_fails android ''timeout'')
      first_render))) = False"
proof -
  have fails: "fix_fails (device_fix_fails android ''timeout'') (JsError ''timeout'')"
    by (simp add: env_defs device_defs)
  have below: "(0::nat) < MAX_RETRIES"
    by (simp add: MAX_RETRIES_def)
  have none: "timers first_render = []"
    by (simp add: first_render_def)
  show ?thesis
    using fails below none
      retry_pending_while_not_loading [OF fails below pair_fst_snd, of initial_state first_render]
    by simp
qed

subsection \<open>A chain of retries\<close>

lemma run_acquisition_fix_fails:
  assumes "fix_throws e" and "n < MAX_RETRIES"
  shows "timers (fst (run_acquisition n e a)) = timers a @ [GetCurrentLocation n]"
    and "retryCount (current (fst (run_acquisition n e a))) = retryCount (current a) + 1"
    and "location (current (fst (run_acquisition n e a))) = location (current a)"
    and "map snd (timeouts (snd (run_acquisition n e a))) = [2000]"
proof -
  obtain err where "fix_fails e err"
    using assms(1) fix_throws_fix_fails by blast
  then have trace: "snd (getCurrentLocation n e) =
      [SetLoading True, SetErrorMsg None, Call HasServicesEnabledAsync,
       Call (permission_call e), Call GetCurrentPositionAsync,
       ConsoleError ''Error getting location:'' err, SetRetryCountPrevPlus1,
       SetTimeout (GetCurrentLocation n) 2000, SetLoading False]"
    using assms(2) by (simp add: getCurrentLocation_fix_fails getCurrentLocation_catch_def)
  show "timers (fst (run_acquisition n e a)) = timers a @ [GetCurrentLocation n]"
    and "retryCount (current (fst (run_acquisition n e a))) = retryCount (current a) + 1"
    and "location (current (fst (run_acquisition n e a))) = location (current a)"
    and "map snd (timeouts (snd (run_acquisition n e a))) = [2000]"
    by (simp_all add: run_acquisition_def trace)
qed

lemma run_acquisition_fix_succeeds:
  assumes "fix_succeeds e loc"
  shows "timers (fst (run_acquisition n e a)) = timers a"
    and "retryCount (current (fst (run_acquisition n e a))) = 0"
    and "location (current (fst (run_acquisition n e a))) = Some loc"
    and "loading (current (fst (run_acquisition n e a))) = False"
  by (simp_all add: run_acquisition_def getCurrentLocation_fix_succeeds [OF assms])

lemma app_run_Cons:
  "app_run (i # is) (a, evs) = app_run is (fst (app_step i a), evs @ snd (app_step i a))"
  by (simp split: prod.splits)

lemma app_run_append: "app_run (xs @ ys) r = app_run ys (app_run xs r)"
proof (induction xs arbitrary: r)
  case Nil
  then show ?case by simp
next
  case (Cons x xs)
  obtain a evs where r: "r = (a, evs)" by (cases r)
  show ?case
    by (simp add: r Cons.IH split: prod.splits)
qed

lemma timer_fires_pending:
  assumes "timers a = [GetCurrentLocation n]"
  shows "app_step (TimerFires e) a = run_acquisition n e (a\<lparr>timers := []\<rparr>)"
  using assms by simp

text \<open>
  While the one pending timer holds a closure that reads a counter below 3, each failing
  firing adds one to the stored counter, sets one more timer of 2000 ms and leaves the
  same closure pending; the number of failures is not bounded here.
\<close>

lemma retry_chain:
  assumes "n < MAX_RETRIES" and "list_all fix_throws fs" and "timers a = [GetCurrentLocation n]"
  shows "timers (fst (app_run (map TimerFires fs) (a, evs))) = [GetCurrentLocation n] \<and>
     retryCount (current (fst (app_run (map TimerFires fs) (a, evs)))) =
       retryCount (current a) + length fs \<and>
     location (current (fst (app_run (map TimerFires fs) (a, evs)))) = location (current a) \<and>
     map snd (timeouts (snd (app_run (map TimerFires fs) (a, evs)))) =
       map snd (timeouts evs) @ replicate (length fs) 2000"
  using assms(2,3)
proof (induction fs arbitrary: a evs)
  case Nil
  then show ?case by simp
next
  case (Cons f fs)
  define r where "r = run_acquisition n f (a\<lparr>timers := []\<rparr>)"
  have f: "fix_throws f" and fs: "list_all fix_throws fs"
    using Cons.prems(1) by simp_all
  have step: "app_step (TimerFires f) a = (fst r, snd r)"
    using timer_fires_pending [OF Cons.prems(2)] by (simp add: r_def)
  have t: "timers (fst r) = [GetCurrentLocation n]"
    and c: "retryCount (current (fst r)) = retryCount (current a) + 1"
    and l: "location (current (fst r)) = location (current a)"
    and d: "map snd (timeouts (snd r)) = [2000]"
    using run_acquisition_fix_fails [OF f assms(1), of "a\<lparr>timers := []\<rparr>"]
    by (simp_all add: r_def)
  have run: "app_run (map TimerFires (f # fs)) (a, evs) =
      app_run (map TimerFires fs) (fst r, evs @ snd r)"
    by (simp add: app_run_Cons step del: app_run.simps app_step.simps)
  show ?case
    unfolding run
    using Cons.IH [OF fs t, of "evs @ snd r"]
    by (simp add: c l d timeouts_append replicate_app_Cons_same)
qed

lemma acquisition_run_failures:
  assumes "n < MAX_RETRIES" and "list_all fix_throws fs" and "timers a = []"
  shows "timers (fst (acquisition_run n fs a)) = (if fs = [] then [] else [GetCurrentLocation n]) \<and>
     retryCount (current (fst (acquisition_run n fs a))) = retryCount (current a) + length fs \<and>
     location (current (fst (acquisition_run n fs a))) = location (current a) \<and>
     map snd (timeouts (snd (acquisition_run n fs a))) = replicate (length fs) 2000"
proof (cases fs)
  case Nil
  then show ?thesis by (simp add: acquisition_run_def assms(3))
next
  case (Cons f fs')
  define r where "r = run_acquisition n f a"
  have f: "fix_throws f" and fs': "list_all fix_throws fs'"
    using assms(2) Cons by simp_all
  have t: "timers (fst r) = [GetCurrentLocation n]"
    and c: "retryCount (current (fst r)) = retryCount (current a) + 1"
    and l: "location (current (fst r)) = location (current a)"
    and d: "map snd (timeouts (snd r)) = [2000]"
    using run_acquisition_fix_fails [OF f assms(1), of a] assms(3)
    by (simp_all add: r_def)
  have run: "acquisition_run n fs a = app_run (map TimerFires fs') (fst r, snd r)"
    by (simp add: acquisition_run_def Cons r_def)
  show ?thesis
    unfolding run
    using retry_chain [OF assms(1) fs' t, of "snd r"]
    by (simp add: Cons c l d replicate_app_Cons_same)
qed

lemma acquisition_run_then_success:
  assumes "n < MAX_RETRIES" and "list_all fix_throws fs" and "timers a = []"
    and "fix_succeeds ok loc"
  shows "timers (fst (acquisition_run n (fs @ [ok]) a)) = [] \<and>
     retryCount (current (fst (acquisition_run n (fs @ [ok]) a))) = 0 \<and>
     location (current (fst (acquisition_run n (fs @ [ok]) a))) = Some loc"
proof (cases fs)
  case Nil
  then show ?thesis
    using run_acquisition_fix_succeeds [OF assms(4), of n a] assms(3)
    by (simp add: acquisition_run_def)
next
  case (Cons f fs')
  obtain a' evs' where r: "acquisition_run n fs a = (a', evs')"
    by (cases "acquisition_run n fs a")
  have nonempty: "fs \<noteq> []"
    using Cons by simp
  have t: "timers a' = [GetCurrentLocation n]"
    using acquisition_run_failures [OF assms(1,2,3)] nonempty by (simp add: r)
  have "acquisition_run n (fs @ [ok]) a = app_run [TimerFires ok] (acquisition_run n fs a)"
    by (simp add: acquisition_run_def Cons app_run_append)
  also have "\<dots> = app_run [TimerFires ok] (a', evs')"
    by (simp only: r)
  also have "\<dots> = (fst (run_acquisition n ok (a'\<lparr>timers := []\<rparr>)),
      evs' @ snd (run_acquisition n ok (a'\<lparr>timers := []\<rparr>)))"
    by (simp add: app_run_Cons timer_fires_pending [OF t] del: app_run.simps(2) app_step.simps)
  finally show ?thesis
    using run_acquisition_fix_succeeds [OF assms(4), of n "a'\<lparr>timers := []\<rparr>"]
    by simp
qed

lemma list_all_take: "list_all P xs \<Longrightarrow> list_all P (take k xs)"
  by (auto simp: list_all_iff dest: in_set_takeD)

text \<open>
  C5: take an acquisition started with no timer pending by a closure that reads a counter
  below 3 (at mount it reads 0), and at most 3 answers of the device in which the fix
  throws. After the first \<open>k\<close> of these failures the stored counter has grown by exactly
  \<open>k\<close>; every failure sets one timer, each with the delay 2000 ms; and when the next answer
  is a successful fix, the counter is 0, the position is the new one and no timer is left.
\<close>

theorem retry_counter_steps_and_reset:
  assumes "timers a = []" and "n < MAX_RETRIES"
    and "list_all fix_throws fs" and "length fs \<le> 3"
    and "fix_succeeds ok loc"
  shows "(\<forall>k \<le> length fs.
        retryCount (current (fst (acquisition_run n (take k fs) a))) =
          retryCount (current a) + k) \<and>
     map snd (timeouts (snd (acquisition_run n fs a))) = replicate (length fs) 2000 \<and>
     retryCount (current (fst (acquisition_run n (fs @ [ok]) a))) = 0 \<and>
     location (current (fst (acquisition_run n (fs @ [ok]) a))) = Some loc \<and>
     timers (fst (acquisition_run n (fs @ [ok]) a)) = []"
proof -
  have "retryCount (current (fst (acquisition_run n (take k fs) a))) =
          retryCount (current a) + k" if "k \<le> length fs" for k
    using acquisition_run_failures [OF assms(2) list_all_take [OF assms(3), of k] assms(1)] that
    by simp
  then show ?thesis
    using acquisition_run_failures [OF assms(2,3,1)]
      acquisition_run_then_success [OF assms(2,3,1,5)]
    by simp
qed

theorem retry_counter_steps_and_reset_witness:
  "timers first_render = [] \<and>
   (0::nat) < MAX_RETRIES \<and>
   list_all fix_throws [device_fix_fails android ''timeout''] \<and>
   fix_succeeds (device_ok android example_location) example_location \<and>
   retryCount (current (fst (acquisition_run 0 [device_fix_fails android ''timeout'']
      first_render))) = 1 \<and>
   map snd (timeouts (snd (acquisition_run 0 [device_fix_fails android ''timeout'']
      first_render))) = [2000] \<and>
   retryCount (current (fst (acquisition_run 0
      [device_fix_fails android ''timeout'', device_ok android example_location]
      first_render))) = 0 \<and>
   location (current (fst (acquisition_run 0
      [device_fix_fails android ''timeout'', device_ok android example_location]
      first_render))) = Some example_location"
proof -
  have none: "timers first_render = []" and zero: "retryCount (current first_render) = 0"
    by (simp_all add: first_render_def initial_state_def)
  have below: "(0::nat) < MAX_RETRIES"
    by (simp add: MAX_RETRIES_def)
  have fails: "list_all fix_throws [device_fix_fails android ''timeout'']"
    by (simp add: fix_throws_def env_defs device_defs)
  have short: "length [device_fix_fails android ''timeout''] \<le> 3"
    by simp
  have ok: "fix_succeeds (device_ok android example_location) example_location"
    by (simp add: env_defs device_defs)
  have "\<forall>k \<le> 1. retryCount (current (fst (acquisition_run 0
            (take k [device_fix_fails android ''timeout'']) first_render))) = k"
    using retry_counter_steps_and_reset [OF none below fails short ok] zero by simp
  then have one: "retryCount (current (fst (acquisition_run 0
      [device_fix_fails android ''timeout''] first_render))) = 1"
    by (metis le_refl take_all_iff length_Cons list.size(3) One_nat_def)
  show ?thesis
    using none below fails ok one zero
      retry_counter_steps_and_reset [OF none below fails short ok]
    by simp
qed

section \<open>The socket trigger\<close>

lemma socket_scope_run_acquisition: "socket_scope (fst (run_acquisition n e a)) = socket_scope a"
  by (simp add: run_acquisition_def Let_def)

lemma socket_scope_app_step: "socket_scope (fst (app_step i a)) = socket_scope a"
  by (cases i) (simp_all add: socket_scope_run_acquisition split: list.splits closure.splits)

lemma socket_scope_app_run: "socket_scope (fst (app_run is (a, evs))) = socket_scope a"
proof (induction "is" arbitrary: a evs)
  case Nil
  then show ?case by simp
next
  case (Cons i "is")
  show ?case
    using Cons.IH [of "fst (app_step i a)" "evs @ snd (app_step i a)"]
    by (simp add: app_run_Cons socket_scope_app_step del: app_run.simps app_step.simps)
qed

text \<open>
  The handler of line 42 is created once, by the effect of the first render, where
  \<^verbatim>\<open>location\<close> is null. Whatever happened to the screen since mount, a socket message
  therefore ends at line 151: one console line, the ``not available'' alert, no request.
\<close>

lemma socket_message_never_posts:
  "app_step (SocketMessage out) (fst (app_run is (mount e))) =
     (fst (app_run is (mount e)),
      [ConsoleLog ''Message received from server'',
       Alert ''Error'' ''Location data is not available. Please refresh your location.''])"
proof -
  have "socket_scope (fst (app_run is (mount e))) = initial_state"
    using socket_scope_app_run [of "is" "fst (mount e)" "snd (mount e)"]
    by (simp add: mount_def first_render_def socket_scope_run_acquisition)
  then show ?thesis
    by (simp add: ws_onmessage_def sendLocationToServer_def initial_state_def)
qed

text \<open>
  C2 at a concrete run: the screen mounts, the first acquisition succeeds and stores
  \<open>example_location\<close>, then the socket delivers a message while the server would answer
  \<^verbatim>\<open>{success: true}\<close>. The send button of the same screen posts the stored coordinates and
  confirms; the socket handler issues no POST and shows the ``not available'' alert.
\<close>

theorem socket_message_with_position_no_post:
  "location (current (fst (mount (device_ok android example_location)))) =
     Some example_location \<and>
   snd (app_step (SendPressed (Resolves (WithSuccess (JBool True))))
          (fst (mount (device_ok android example_location)))) =
     [HttpPost ''https://wss.clusterider.tech/send-location'' 12.5 77.25,
      Alert ''Success'' ''Location shared successfully via server.''] \<and>
   snd (app_step (SocketMessage (Resolves (WithSuccess (JBool True))))
          (fst (mount (device_ok android example_location)))) =
     [ConsoleLog ''Message received from server'',
      Alert ''Error'' ''Location data is not available. Please refresh your location.''] \<and>
   posts (snd (app_step (SocketMessage (Resolves (WithSuccess (JBool True))))
          (fst (mount (device_ok android example_location))))) = []"
  by (simp add: mount_def first_render_def run_acquisition_def acquisition_defs device_defs
      initial_state_def ws_onmessage_def sendLocationToServer_def sendLocationToServer_try_def)

end
